theory Spec2Isabelle
  imports Complex_Main
begin

section \<open>JavaScript values\<close>

text \<open>
  The normaliser of \<^verbatim>\<open>src/tools/finance/chart.ts\<close> receives a value of type
  \<^verbatim>\<open>unknown\<close>.  The embedding covers the values a decoded JSON document can hold,
  together with \<^verbatim>\<open>undefined\<close>, \<^verbatim>\<open>NaN\<close> and the two infinities.

  A number is either not-a-number, an infinity, or a finite number given by its exact
  rational value.  Rounding of a finite value to the nearest binary double is not
  modelled, and the two zeros are identified (the source only tests zeros with
  \<^verbatim>\<open>===\<close> and by truthiness, neither of which separates them).

  A string is the list of its code units, of which only those below 256 are
  represented.  An object is the list of its own properties, with distinct keys, in the
  order in which they were created.
\<close>

datatype jsnum = Fin rat | PosInf | NegInf | NaN

datatype jsval =
    JUndefined
  | JNull
  | JBool bool
  | JNum jsnum
  | JStr string
  | JArr "jsval list"
  | JObj "(string \<times> jsval) list"

datatype error = Error string | TypeError string

text \<open>Truthiness, as tested by \<^verbatim>\<open>!x\<close>, \<^verbatim>\<open>x && ...\<close> and \<^verbatim>\<open>x || ...\<close>.\<close>

fun truthy :: "jsval \<Rightarrow> bool" where
  "truthy JUndefined = False"
| "truthy JNull = False"
| "truthy (JBool b) = b"
| "truthy (JNum n) = (n \<noteq> NaN \<and> n \<noteq> Fin 0)"
| "truthy (JStr s) = (s \<noteq> [])"
| "truthy (JArr xs) = True"
| "truthy (JObj ps) = True"

definition isNaN :: "jsnum \<Rightarrow> bool" where
  "isNaN n = (n = NaN)"

text \<open>\<^verbatim>\<open>a || 0\<close> for a number \<^verbatim>\<open>a\<close>.\<close>

definition or_zero :: "jsnum \<Rightarrow> jsnum" where
  "or_zero n = (if truthy (JNum n) then n else Fin 0)"

section \<open>Decimal numerals\<close>

definition digit_char :: "nat \<Rightarrow> char" where
  "digit_char d = ''0123456789'' ! d"

fun dec :: "nat \<Rightarrow> string" where
  "dec n = (if n < 10 then [digit_char n] else dec (n div 10) @ [digit_char (n mod 10)])"

declare dec.simps [simp del]

definition is_digit :: "char \<Rightarrow> bool" where
  "is_digit c = (c \<in> set ''0123456789'')"

definition digit_val :: "char \<Rightarrow> nat" where
  "digit_val c = of_char c - 48"

definition nat_of_digits :: "string \<Rightarrow> nat" where
  "nat_of_digits ds = foldl (\<lambda>a c. 10 * a + digit_val c) 0 ds"

section \<open>The built-in functions the source calls\<close>

subsection \<open>parseFloat\<close>

text \<open>
  \<^verbatim>\<open>parseFloat\<close> skips leading white space and reads the longest prefix that is a
  decimal literal: an optional sign, then \<^verbatim>\<open>Infinity\<close> or digits with an optional
  fraction and an optional exponent.  Without such a prefix the result is NaN.
  A literal beyond the range of doubles gives an infinity, one below the smallest
  subnormal gives zero.
\<close>

definition is_ws :: "char \<Rightarrow> bool" where
  "is_ws c = (of_char c \<in> {9, 10, 11, 12, 13, 32, 160 :: nat})"

definition double_of_rat :: "rat \<Rightarrow> jsnum" where
  "double_of_rat q =
     (if 2 ^ 1024 - 2 ^ 970 \<le> \<bar>q\<bar> then (if 0 < q then PosInf else NegInf)
      else if \<bar>q\<bar> \<le> 1 / 2 ^ 1075 then Fin 0
      else Fin q)"

definition exponent_part :: "string \<Rightarrow> int" where
  "exponent_part r =
     (case r of
        [] \<Rightarrow> 0
      | c # t \<Rightarrow>
          if c = CHR ''e'' \<or> c = CHR ''E'' then
            (let neg = (case t of [] \<Rightarrow> False | s # _ \<Rightarrow> s = CHR ''-'');
                 u = (case t of [] \<Rightarrow> []
                      | s # v \<Rightarrow> if s = CHR ''+'' \<or> s = CHR ''-'' then v else t);
                 ds = takeWhile is_digit u
             in if ds = [] then 0
                else if neg then - int (nat_of_digits ds) else int (nat_of_digits ds))
          else 0)"

definition scale10 :: "rat \<Rightarrow> int \<Rightarrow> rat" where
  "scale10 q e = (if 0 \<le> e then q * 10 ^ nat e else q / 10 ^ nat (- e))"

definition str_unsigned :: "string \<Rightarrow> jsnum" where
  "str_unsigned s =
     (if take 8 s = ''Infinity'' then PosInf
      else
        let ip = takeWhile is_digit s;
            r1 = dropWhile is_digit s;
            fp = (case r1 of [] \<Rightarrow> []
                  | c # t \<Rightarrow> if c = CHR ''.'' then takeWhile is_digit t else []);
            r2 = (case r1 of [] \<Rightarrow> []
                  | c # t \<Rightarrow> if c = CHR ''.'' then dropWhile is_digit t else r1)
        in if ip = [] \<and> fp = [] then NaN
           else double_of_rat
                  (scale10 (of_nat (nat_of_digits ip)
                            + of_nat (nat_of_digits fp) / 10 ^ length fp)
                           (exponent_part r2)))"

definition negate :: "jsnum \<Rightarrow> jsnum" where
  "negate n = (case n of Fin q \<Rightarrow> Fin (- q) | PosInf \<Rightarrow> NegInf | NegInf \<Rightarrow> PosInf | NaN \<Rightarrow> NaN)"

definition parseFloat :: "string \<Rightarrow> jsnum" where
  "parseFloat s =
     (case dropWhile is_ws s of
        [] \<Rightarrow> NaN
      | c # t \<Rightarrow>
          if c = CHR ''-'' then negate (str_unsigned t)
          else if c = CHR ''+'' then str_unsigned t
          else str_unsigned (c # t))"

subsection \<open>Number to string\<close>

text \<open>
  \<^verbatim>\<open>String(n)\<close> and a number inside a template literal: the decimal digits
  \<open>s\<close> of the value without leading or trailing zeros, and the position \<open>n\<close> of the
  decimal point, are laid out in positional notation when \<open>-6 < n \<le> 21\<close> and in
  exponent notation otherwise.  The digits are those of the exact value.
\<close>

fun nat_digits :: "nat \<Rightarrow> nat list" where
  "nat_digits n = (if n < 10 then [n] else nat_digits (n div 10) @ [n mod 10])"

declare nat_digits.simps [simp del]

fun frac_digits :: "nat \<Rightarrow> rat \<Rightarrow> nat list" where
  "frac_digits 0 f = []"
| "frac_digits (Suc fuel) f =
     (if f = 0 then []
      else nat \<lfloor>10 * f\<rfloor> # frac_digits fuel (10 * f - of_int \<lfloor>10 * f\<rfloor>))"

definition decimal_repr :: "rat \<Rightarrow> nat list \<times> int" where
  "decimal_repr q =
     (let ip = nat \<lfloor>q\<rfloor>;
          ids = (if ip = 0 then [] else nat_digits ip);
          ds = ids @ frac_digits 1100 (q - of_nat ip);
          z = length (takeWhile (\<lambda>d. d = 0) ds)
      in (rev (dropWhile (\<lambda>d. d = 0) (rev (dropWhile (\<lambda>d. d = 0) ds))),
          int (length ids) - int z))"

definition positive_toString :: "rat \<Rightarrow> string" where
  "positive_toString q =
     (let s = fst (decimal_repr q);
          n = snd (decimal_repr q);
          k = int (length s);
          cs = map digit_char s
      in if k \<le> n \<and> n \<le> 21 then cs @ replicate (nat (n - k)) (CHR ''0'')
         else if 0 < n \<and> n \<le> 21 then take (nat n) cs @ ''.'' @ drop (nat n) cs
         else if - 6 < n \<and> n \<le> 0 then ''0.'' @ replicate (nat (- n)) (CHR ''0'') @ cs
         else (if k = 1 then cs else take 1 cs @ ''.'' @ drop 1 cs)
              @ ''e'' @ (if n - 1 < 0 then ''-'' else ''+'') @ dec (nat \<bar>n - 1\<bar>))"

definition Number_toString :: "jsnum \<Rightarrow> string" where
  "Number_toString x =
     (case x of
        NaN \<Rightarrow> ''NaN''
      | PosInf \<Rightarrow> ''Infinity''
      | NegInf \<Rightarrow> ''-Infinity''
      | Fin q \<Rightarrow>
          if q = 0 then ''0''
          else if q < 0 then ''-'' @ positive_toString (- q)
          else positive_toString q)"

subsection \<open>String(value)\<close>

fun join_comma :: "string list \<Rightarrow> string" where
  "join_comma [] = []"
| "join_comma [s] = s"
| "join_comma (s # t # ss) = s @ '','' @ join_comma (t # ss)"

text \<open>An array is joined with commas, a null or undefined element giving the empty string.\<close>

fun String_js :: "jsval \<Rightarrow> string" where
  "String_js JUndefined = ''undefined''"
| "String_js JNull = ''null''"
| "String_js (JBool b) = (if b then ''true'' else ''false'')"
| "String_js (JNum n) = Number_toString n"
| "String_js (JStr s) = s"
| "String_js (JArr xs) =
     join_comma (map (\<lambda>x. if x = JNull \<or> x = JUndefined then [] else String_js x) xs)"
| "String_js (JObj ps) = ''[object Object]''"

subsection \<open>Property access and Object.entries\<close>

definition as_number :: "jsval \<Rightarrow> jsnum option" where
  "as_number v = (case v of JNum n \<Rightarrow> Some n | _ \<Rightarrow> None)"

definition as_string :: "jsval \<Rightarrow> string option" where
  "as_string v = (case v of JStr s \<Rightarrow> Some s | _ \<Rightarrow> None)"

text \<open>
  \<^verbatim>\<open>obj.name\<close> for an element that is an object or an array.  The names the source
  reads are neither array indices nor \<^verbatim>\<open>length\<close>, so an array has none of them.
\<close>

fun get :: "jsval \<Rightarrow> string \<Rightarrow> jsval" where
  "get (JObj ps) k = (case map_of ps k of None \<Rightarrow> JUndefined | Some v \<Rightarrow> v)"
| "get v k = JUndefined"

text \<open>
  The own properties of an object are enumerated with the array-index keys first, in
  ascending numeric order, followed by the other keys in the order of their creation.
\<close>

definition is_array_index :: "string \<Rightarrow> bool" where
  "is_array_index k =
     (k \<noteq> [] \<and> list_all is_digit k \<and> (k = ''0'' \<or> hd k \<noteq> CHR ''0'')
      \<and> nat_of_digits k < 2 ^ 32 - 1)"

definition own_entries :: "(string \<times> jsval) list \<Rightarrow> (string \<times> jsval) list" where
  "own_entries ps =
     sort_key (\<lambda>p. nat_of_digits (fst p)) (filter (\<lambda>p. is_array_index (fst p)) ps)
     @ filter (\<lambda>p. \<not> is_array_index (fst p)) ps"

fun indexed :: "nat \<Rightarrow> 'a list \<Rightarrow> (string \<times> 'a) list" where
  "indexed i [] = []"
| "indexed i (x # xs) = (dec i, x) # indexed (i + 1) xs"

text \<open>\<^verbatim>\<open>Object.entries\<close> raises a TypeError on null and undefined.\<close>

fun Object_entries :: "jsval \<Rightarrow> error + (string \<times> jsval) list" where
  "Object_entries JUndefined = Inl (TypeError ''Cannot convert undefined or null to object'')"
| "Object_entries JNull = Inl (TypeError ''Cannot convert undefined or null to object'')"
| "Object_entries (JBool b) = Inr []"
| "Object_entries (JNum n) = Inr []"
| "Object_entries (JStr s) = Inr (indexed 0 (map (\<lambda>c. JStr [c]) s))"
| "Object_entries (JArr xs) = Inr (indexed 0 xs)"
| "Object_entries (JObj ps) = Inr (own_entries ps)"

subsection \<open>Dates\<close>

text \<open>
  \<^verbatim>\<open>new Date(s)\<close> never raises: a string that does not parse gives an invalid date.
  Which strings parse, and the local time zone in which the month and the day are read,
  belong to the host, so the constructor is a parameter of the model.  A date is seen
  only through its local month and day of the month.
\<close>

datatype month = Jan | Feb | Mar | Apr | May | Jun | Jul | Aug | Sep | Oct | Nov | Dec

datatype js_date = InvalidDate | LocalDate month nat

type_synonym date_ctor = "string \<Rightarrow> js_date"

text \<open>\<^verbatim>\<open>date.toLocaleDateString('en-US', { month: 'short' })\<close>\<close>

fun month_short :: "month \<Rightarrow> string" where
  "month_short Jan = ''Jan''" | "month_short Feb = ''Feb''" | "month_short Mar = ''Mar''"
| "month_short Apr = ''Apr''" | "month_short May = ''May''" | "month_short Jun = ''Jun''"
| "month_short Jul = ''Jul''" | "month_short Aug = ''Aug''" | "month_short Sep = ''Sep''"
| "month_short Oct = ''Oct''" | "month_short Nov = ''Nov''" | "month_short Dec = ''Dec''"

fun toLocaleDateString :: "js_date \<Rightarrow> error + string" where
  "toLocaleDateString InvalidDate = Inr ''Invalid Date''"
| "toLocaleDateString (LocalDate m d) = Inr (month_short m)"

fun getDate :: "js_date \<Rightarrow> error + jsnum" where
  "getDate InvalidDate = Inr NaN"
| "getDate (LocalDate m d) = Inr (Fin (of_nat d))"

text \<open>
  One host: it reads the date-only form \<^verbatim>\<open>YYYY-MM-DD\<close> in the UTC time zone and
  rejects every other string.
\<close>

definition month_of_nat :: "nat \<Rightarrow> month option" where
  "month_of_nat n =
     (if 1 \<le> n \<and> n \<le> 12 then Some ([Jan, Feb, Mar, Apr, May, Jun, Jul, Aug, Sep, Oct, Nov, Dec] ! (n - 1))
      else None)"

definition days_in_month :: "nat \<Rightarrow> month \<Rightarrow> nat" where
  "days_in_month y m =
     (if m = Feb then (if y mod 4 = 0 \<and> (y mod 100 \<noteq> 0 \<or> y mod 400 = 0) then 29 else 28)
      else if m \<in> {Apr, Jun, Sep, Nov} then 30 else 31)"

definition isoDate :: date_ctor where
  "isoDate s =
     (if length s = 10 \<and> s ! 4 = CHR ''-'' \<and> s ! 7 = CHR ''-''
         \<and> list_all is_digit (take 4 s) \<and> list_all is_digit (take 2 (drop 5 s))
         \<and> list_all is_digit (drop 8 s)
      then (case month_of_nat (nat_of_digits (take 2 (drop 5 s))) of
              None \<Rightarrow> InvalidDate
            | Some m \<Rightarrow>
                let d = nat_of_digits (drop 8 s)
                in if 1 \<le> d \<and> d \<le> days_in_month (nat_of_digits (take 4 s)) m
                   then LocalDate m d else InvalidDate)
      else InvalidDate)"

section \<open>chart.ts\<close>

subsection \<open>formatDateLabel\<close>

text \<open>
  The body of the \<^verbatim>\<open>try\<close> block: an error of any of the three calls would leave the
  block.
\<close>

definition formatDateLabel_try :: "date_ctor \<Rightarrow> string \<Rightarrow> error + string" where
  "formatDateLabel_try newDate dateStr =
     (let date = newDate dateStr
      in case toLocaleDateString date of
           Inl e \<Rightarrow> Inl e
         | Inr m \<Rightarrow>
             (case getDate date of
                Inl e \<Rightarrow> Inl e
              | Inr d \<Rightarrow> Inr (m @ '' '' @ Number_toString d)))"

definition formatDateLabel :: "date_ctor \<Rightarrow> string \<Rightarrow> string" where
  "formatDateLabel newDate dateStr =
     (case formatDateLabel_try newDate dateStr of
        Inr s \<Rightarrow> s
      | Inl e \<Rightarrow> take 10 dateStr)"

subsection \<open>ChartDataPoint\<close>

record ChartDataPoint =
  pt_value :: jsnum
  pt_label :: "string option"
  pt_date :: "string option"
  pt_open :: "jsnum option"
  pt_high :: "jsnum option"
  pt_low :: "jsnum option"
  pt_close :: "jsnum option"

text \<open>The object literal \<^verbatim>\<open>{ value: num, label: key }\<close>.\<close>

definition labelled :: "jsnum \<Rightarrow> string \<Rightarrow> ChartDataPoint" where
  "labelled num key =
     \<lparr>pt_value = num, pt_label = Some key, pt_date = None,
      pt_open = None, pt_high = None, pt_low = None, pt_close = None\<rparr>"

subsection \<open>normalizeChartData\<close>

text \<open>
  The two loops over the entries of an object (lines 96 to 101 and 110 to 115) have the
  same body: the number of the entry is its value when that is a number and
  \<^verbatim>\<open>parseFloat(String(value))\<close> otherwise, and an entry whose number is not NaN is
  pushed with its key as the label.
\<close>

definition entry_number :: "jsval \<Rightarrow> jsnum" where
  "entry_number v = (case v of JNum n \<Rightarrow> n | _ \<Rightarrow> parseFloat (String_js v))"

fun entries_loop :: "(string \<times> jsval) list \<Rightarrow> ChartDataPoint list \<Rightarrow> ChartDataPoint list" where
  "entries_loop [] result = result"
| "entries_loop ((key, v) # rest) result =
     (let num = entry_number v
      in entries_loop rest (if \<not> isNaN num then result @ [labelled num key] else result))"

text \<open>
  The test of line 95 on the first value of an object, and the test of line 106.
\<close>

definition first_is_numeric :: "jsval \<Rightarrow> bool" where
  "first_is_numeric firstValue =
     (case firstValue of
        JNum n \<Rightarrow> True
      | JStr s \<Rightarrow> \<not> isNaN (parseFloat s)
      | _ \<Rightarrow> False)"

definition first_is_object :: "jsval \<Rightarrow> bool" where
  "first_is_object firstValue =
     (truthy firstValue \<and> (case firstValue of JObj ps \<Rightarrow> True | _ \<Rightarrow> False))"

text \<open>The value of an element of the array that is an object (lines 138 to 144).\<close>

definition item_value :: "jsval \<Rightarrow> jsnum" where
  "item_value obj =
     (case as_number (get obj ''value'') of Some n \<Rightarrow> n | None \<Rightarrow>
     (case as_string (get obj ''value'') of Some s \<Rightarrow> or_zero (parseFloat s) | None \<Rightarrow>
     (case as_number (get obj ''net_income'') of Some n \<Rightarrow> n | None \<Rightarrow>
     (case as_number (get obj ''total_revenue'') of Some n \<Rightarrow> n | None \<Rightarrow>
     (case as_number (get obj ''revenue'') of Some n \<Rightarrow> n | None \<Rightarrow>
     (case as_number (get obj ''close'') of Some n \<Rightarrow> n | None \<Rightarrow>
      Fin 0))))))"

text \<open>The test of line 146, after which the element is skipped.\<close>

definition item_skipped :: "jsval \<Rightarrow> bool" where
  "item_skipped obj =
     (item_value obj = Fin 0 \<and> \<not> truthy (get obj ''value'')
      \<and> \<not> truthy (get obj ''net_income'') \<and> \<not> truthy (get obj ''total_revenue'')
      \<and> \<not> truthy (get obj ''revenue'') \<and> \<not> truthy (get obj ''close''))"

text \<open>\<^verbatim>\<open>`Q${quarter} ${year}`\<close> when both are numbers.\<close>

definition quarter_label :: "jsval \<Rightarrow> jsval \<Rightarrow> string option" where
  "quarter_label year quarter =
     (case as_number year of
        None \<Rightarrow> None
      | Some y \<Rightarrow>
          (case as_number quarter of
             None \<Rightarrow> None
           | Some q \<Rightarrow> Some (''Q'' @ Number_toString q @ '' '' @ Number_toString y)))"

definition item_label :: "date_ctor \<Rightarrow> jsval \<Rightarrow> string option" where
  "item_label newDate obj =
     (case as_string (get obj ''label'') of Some s \<Rightarrow> Some s | None \<Rightarrow>
     (case as_string (get obj ''report_period'') of
        Some s \<Rightarrow> Some (formatDateLabel newDate s) | None \<Rightarrow>
     (case as_string (get obj ''date'') of
        Some s \<Rightarrow> Some (formatDateLabel newDate s) | None \<Rightarrow>
     (case quarter_label (get obj ''fiscal_year'') (get obj ''quarter'') of
        Some l \<Rightarrow> Some l | None \<Rightarrow>
     (case quarter_label (get obj ''year'') (get obj ''quarter'') of
        Some l \<Rightarrow> Some l | None \<Rightarrow>
     (case as_number (get obj ''fiscal_year'') of Some y \<Rightarrow> Some (Number_toString y) | None \<Rightarrow>
     (case as_number (get obj ''year'') of Some y \<Rightarrow> Some (Number_toString y) | None \<Rightarrow>
      None)))))))"

definition item_date :: "jsval \<Rightarrow> string option" where
  "item_date obj =
     (case as_string (get obj ''date'') of Some s \<Rightarrow> Some s | None \<Rightarrow>
     (case as_string (get obj ''report_period'') of Some s \<Rightarrow> Some s | None \<Rightarrow>
      None))"

text \<open>One of the fields open, high, low and close (lines 163 to 166).\<close>

definition ohlc :: "jsval \<Rightarrow> jsnum option" where
  "ohlc v =
     (case as_number v of Some n \<Rightarrow> Some n | None \<Rightarrow>
     (case as_string v of Some s \<Rightarrow> Some (parseFloat s) | None \<Rightarrow>
      None))"

definition item_point :: "date_ctor \<Rightarrow> jsval \<Rightarrow> ChartDataPoint" where
  "item_point newDate obj =
     \<lparr>pt_value = item_value obj,
      pt_label = item_label newDate obj,
      pt_date = item_date obj,
      pt_open = ohlc (get obj ''open''),
      pt_high = ohlc (get obj ''high''),
      pt_low = ohlc (get obj ''low''),
      pt_close = ohlc (get obj ''close'')\<rparr>"

text \<open>
  The loop over the array (lines 126 to 169): \<open>i\<close> is the index of the first element
  of the remaining list.  An element that is neither a number, a string nor a truthy
  object (null, undefined, a boolean) is passed over.
\<close>

fun array_loop ::
  "date_ctor \<Rightarrow> nat \<Rightarrow> jsval list \<Rightarrow> ChartDataPoint list \<Rightarrow> ChartDataPoint list" where
  "array_loop newDate i [] result = result"
| "array_loop newDate i (item # rest) result =
     array_loop newDate (i + 1) rest
       (case item of
          JNum n \<Rightarrow> result @ [labelled n (''Point '' @ dec (i + 1))]
        | JStr s \<Rightarrow>
            if \<not> isNaN (parseFloat s)
            then result @ [labelled (parseFloat s) (''Point '' @ dec (i + 1))]
            else result
        | JArr xs \<Rightarrow>
            if item_skipped item then result else result @ [item_point newDate item]
        | JObj ps \<Rightarrow>
            if item_skipped item then result else result @ [item_point newDate item]
        | _ \<Rightarrow> result)"

text \<open>
  Lines 87 to 119.  The outcome is \<open>Inr (Some r)\<close> when the function returns \<open>r\<close>
  from inside the block, \<open>Inl\<close> when \<^verbatim>\<open>Object.entries\<close> raises, and \<open>Inr None\<close> when
  control reaches line 121; in that case nothing has been pushed, since each of the two
  loops is followed by a return when the result is not empty.
\<close>

definition object_block :: "jsval \<Rightarrow> error + ChartDataPoint list option" where
  "object_block data =
     (case data of
        JObj ps \<Rightarrow>
          (let entries = own_entries ps
           in case entries of
                [] \<Rightarrow> Inr None
              | first # _ \<Rightarrow>
                  let firstValue = snd first;
                      result = (if first_is_numeric firstValue then entries_loop entries []
                                else [])
                  in if first_is_numeric firstValue \<and> result \<noteq> [] then Inr (Some result)
                     else if first_is_object firstValue then
                       (case Object_entries (snd (last entries)) of
                          Inl e \<Rightarrow> Inl e
                        | Inr segments \<Rightarrow>
                            let nested = entries_loop segments result
                            in if nested \<noteq> [] then Inr (Some nested) else Inr None)
                     else Inr None)
      | _ \<Rightarrow> Inr None)"

definition array_block :: "date_ctor \<Rightarrow> jsval \<Rightarrow> error + ChartDataPoint list" where
  "array_block newDate data =
     (case data of
        JArr xs \<Rightarrow>
          if xs = [] then
            Inl (Error ''Data must be a non-empty array or object with numeric values'')
          else
            (let result = array_loop newDate 0 xs []
             in if result = [] then Inl (Error ''No valid numeric data found in input'')
                else Inr result)
      | _ \<Rightarrow> Inl (Error ''Data must be a non-empty array or object with numeric values''))"

definition normalizeChartData :: "date_ctor \<Rightarrow> jsval \<Rightarrow> error + ChartDataPoint list" where
  "normalizeChartData newDate data =
     (if \<not> truthy data then Inl (Error ''Data is required'')
      else case object_block data of
             Inl e \<Rightarrow> Inl e
           | Inr (Some result) \<Rightarrow> Inr result
           | Inr None \<Rightarrow> array_block newDate data)"

section \<open>The output described element by element\<close>

text \<open>
  What one element of the input array, at index \<open>i\<close>, contributes to the output:
  no point or one point.
\<close>

definition array_item :: "date_ctor \<Rightarrow> nat \<Rightarrow> jsval \<Rightarrow> ChartDataPoint list" where
  "array_item newDate i item =
     (case item of
        JNum n \<Rightarrow> [labelled n (''Point '' @ dec (i + 1))]
      | JStr s \<Rightarrow>
          if parseFloat s = NaN then []
          else [labelled (parseFloat s) (''Point '' @ dec (i + 1))]
      | JArr xs \<Rightarrow> if item_skipped item then [] else [item_point newDate item]
      | JObj ps \<Rightarrow> if item_skipped item then [] else [item_point newDate item]
      | _ \<Rightarrow> [])"

text \<open>The points of a list of entries: one point for each entry whose number is not
  NaN, in the order of the entries.\<close>

definition segment_points :: "(string \<times> jsval) list \<Rightarrow> ChartDataPoint list" where
  "segment_points es =
     map (\<lambda>e. labelled (entry_number (snd e)) (fst e))
         (filter (\<lambda>e. entry_number (snd e) \<noteq> NaN) es)"



definition is_finite :: "jsnum \<Rightarrow> bool" where
  "is_finite n = (case n of Fin q \<Rightarrow> True | _ \<Rightarrow> False)"

text \<open>
  An input array none of whose elements is the number NaN or an object holding the
  number NaN in one of the five value fields.
\<close>

definition value_fields :: "string list" where
  "value_fields = [''value'', ''net_income'', ''total_revenue'', ''revenue'', ''close'']"

definition no_nan_items :: "jsval \<Rightarrow> bool" where
  "no_nan_items data =
     (case data of
        JArr xs \<Rightarrow>
          list_all (\<lambda>item. item \<noteq> JNum NaN
                      \<and> list_all (\<lambda>k. get item k \<noteq> JNum NaN) value_fields) xs
      | _ \<Rightarrow> True)"

text \<open>
  A returned point as the JavaScript object it is, for handing the output back to the
  normaliser.  An absent field reads as \<^verbatim>\<open>undefined\<close>.
\<close>

definition opt_js :: "('a \<Rightarrow> jsval) \<Rightarrow> 'a option \<Rightarrow> jsval" where
  "opt_js f x = (case x of None \<Rightarrow> JUndefined | Some y \<Rightarrow> f y)"

definition point_js :: "ChartDataPoint \<Rightarrow> jsval" where
  "point_js p =
     JObj [(''value'', JNum (pt_value p)),
           (''label'', opt_js JStr (pt_label p)),
           (''date'', opt_js JStr (pt_date p)),
           (''open'', opt_js JNum (pt_open p)),
           (''high'', opt_js JNum (pt_high p)),
           (''low'', opt_js JNum (pt_low p)),
           (''close'', opt_js JNum (pt_close p))]"

section \<open>Evaluation on concrete inputs\<close>

lemma dec_numeral:
  "dec (numeral k) =
     (if numeral k < (10::nat) then [digit_char (numeral k)]
      else dec (numeral k div 10) @ [digit_char (numeral k mod 10)])"
  by (rule dec.simps)

lemma dec_digit: "n < 10 \<Longrightarrow> dec n = [digit_char n]"
  by (simp add: dec.simps)

lemma nat_digits_numeral:
  "nat_digits (numeral k) =
     (if numeral k < (10::nat) then [numeral k]
      else nat_digits (numeral k div 10) @ [numeral k mod 10])"
  by (rule nat_digits.simps)

lemma nat_digits_small: "nat_digits 0 = [0]" "nat_digits 1 = [1]" "nat_digits (Suc 0) = [Suc 0]"
  by (simp_all add: nat_digits.simps)

lemma frac_digits_zero: "frac_digits fuel 0 = []"
  by (cases fuel) simp_all

lemmas dec_eval = dec_numeral dec_digit digit_char_def

lemmas num_defs =
  Number_toString_def positive_toString_def decimal_repr_def nat_digits_numeral
  nat_digits_small frac_digits_zero dec_eval

lemmas parse_defs =
  parseFloat_def str_unsigned_def is_ws_def is_digit_def nat_of_digits_def digit_val_def
  double_of_rat_def scale10_def exponent_part_def negate_def

lemmas date_defs =
  isoDate_def month_of_nat_def days_in_month_def is_digit_def nat_of_digits_def digit_val_def

lemmas norm_defs =
  normalizeChartData_def object_block_def array_block_def own_entries_def
  is_array_index_def first_is_numeric_def first_is_object_def isNaN_def labelled_def
  entry_number_def
  item_skipped_def item_value_def item_point_def item_label_def item_date_def ohlc_def
  as_number_def as_string_def or_zero_def quarter_label_def

section \<open>The loops as list functions\<close>

lemma entries_loop_eq: "entries_loop es acc = acc @ segment_points es"
  by (induction es arbitrary: acc) (auto simp: segment_points_def isNaN_def)

lemma array_loop_eq:
  "array_loop newDate i xs acc
     = acc @ concat (map (\<lambda>(j, x). array_item newDate j x) (enumerate i xs))"
  by (induction xs arbitrary: i acc)
     (auto simp: array_item_def isNaN_def split: jsval.splits)




section \<open>Rejected inputs\<close>

text \<open>
  C8.  The normaliser fails with an error, and does not return an empty sequence, on
  \<^verbatim>\<open>null\<close>, on the empty array \<^verbatim>\<open>[]\<close>, on the empty object \<^verbatim>\<open>{}\<close> and on
  \<^verbatim>\<open>[{foo: "bar"}]\<close>, an array whose only element has no recognised value field.
\<close>

theorem normalize_rejects_empty_inputs:
  "normalizeChartData newDate JNull = Inl (Error ''Data is required'')
   \<and> normalizeChartData newDate (JArr [])
       = Inl (Error ''Data must be a non-empty array or object with numeric values'')
   \<and> normalizeChartData newDate (JObj [])
       = Inl (Error ''Data must be a non-empty array or object with numeric values'')
   \<and> normalizeChartData newDate (JArr [JObj [(''foo'', JStr ''bar'')]])
       = Inl (Error ''No valid numeric data found in input'')"
  by (simp add: norm_defs)

text \<open>The falsy values of the model are exactly the six values listed in C9.\<close>

lemma falsy_cases:
  "\<not> truthy v \<longleftrightarrow>
     v \<in> {JNull, JUndefined, JNum (Fin 0), JStr [], JBool False, JNum NaN}"
  by (cases v) auto

text \<open>
  C9.  Every falsy input, that is \<^verbatim>\<open>null\<close>, \<^verbatim>\<open>undefined\<close>, the number \<^verbatim>\<open>0\<close>, the
  empty string, \<^verbatim>\<open>false\<close> and \<^verbatim>\<open>NaN\<close>, raises the error "Data is required"; the test
  comes first, so the shape of the input is not looked at.
\<close>

theorem falsy_input_is_required_error:
  "(\<not> truthy v \<longrightarrow> normalizeChartData newDate v = Inl (Error ''Data is required''))
   \<and> list_all (\<lambda>x. normalizeChartData newDate x = Inl (Error ''Data is required''))
        [JNull, JUndefined, JNum (Fin 0), JStr [], JBool False, JNum NaN]"
  by (simp add: normalizeChartData_def)

theorem falsy_input_is_required_error_witness:
  "\<not> truthy (JNum (Fin 0))
   \<and> normalizeChartData isoDate (JNum (Fin 0)) = Inl (Error ''Data is required'')"
  using falsy_input_is_required_error [of "JNum (Fin 0)" isoDate] by simp

section \<open>Arrays of numbers and default labels\<close>





section \<open>Elements that are objects\<close>

lemma as_number_SomeD: "as_number v = Some n \<Longrightarrow> v = JNum n"
  by (cases v) (simp_all add: as_number_def)

lemma or_zero_not_nan: "or_zero n \<noteq> NaN"
  by (simp add: or_zero_def)




text \<open>
  C1.  The claim: an element with the numeric value field \<^verbatim>\<open>0\<close> is retained, an
  element without any recognised value field is skipped, so that
  \<^verbatim>\<open>[{value: 0}, {irrelevant: 1}]\<close> gives exactly one point of value zero.  The test of
  line 146 reads the fields by truthiness, and the number zero is falsy: both elements
  are skipped and the call fails.  The same zero written as the string \<^verbatim>\<open>"0"\<close> is
  retained.
\<close>

theorem zero_value_element_dropped:
  "normalizeChartData newDate
     (JArr [JObj [(''value'', JNum (Fin 0))], JObj [(''irrelevant'', JNum (Fin 1))]])
   = Inl (Error ''No valid numeric data found in input'')
   \<and> item_skipped (JObj [(''value'', JNum (Fin 0))])
   \<and> item_skipped (JObj [(''irrelevant'', JNum (Fin 1))])
   \<and> \<not> item_skipped (JObj [(''value'', JStr ''0'')])"
  by (simp add: norm_defs parse_defs)

text \<open>
  C5.  The claim: the output of the normaliser, handed back to it, is never rejected.
  The output for \<^verbatim>\<open>[0]\<close> is one point of value zero, and that point is skipped by
  the test of line 146 when it comes back as an input element.
\<close>

theorem output_fed_back_is_rejected:
  "normalizeChartData newDate (JArr [JNum (Fin 0)]) = Inr [labelled (Fin 0) ''Point 1'']
   \<and> normalizeChartData newDate (JArr (map point_js [labelled (Fin 0) ''Point 1'']))
       = Inl (Error ''No valid numeric data found in input'')"
  by (simp add: norm_defs point_js_def opt_js_def dec_eval)




section \<open>The values of the output\<close>

lemma item_value_not_nan:
  assumes "list_all (\<lambda>k. get item k \<noteq> JNum NaN) value_fields"
  shows "item_value item \<noteq> NaN"
  using assms
  by (auto simp: item_value_def value_fields_def or_zero_not_nan
           split: option.splits dest!: as_number_SomeD)

lemma array_item_not_nan:
  assumes "item \<noteq> JNum NaN" and "list_all (\<lambda>k. get item k \<noteq> JNum NaN) value_fields"
  shows "list_all (\<lambda>p. pt_value p \<noteq> NaN) (array_item newDate i item)"
  using assms item_value_not_nan [OF assms(2)]
  by (cases item) (auto simp: array_item_def labelled_def item_point_def)

lemma segment_points_not_nan: "list_all (\<lambda>p. pt_value p \<noteq> NaN) (segment_points es)"
  by (induction es) (auto simp: segment_points_def labelled_def)

lemma array_loop_not_nan:
  assumes "list_all (\<lambda>item. item \<noteq> JNum NaN
              \<and> list_all (\<lambda>k. get item k \<noteq> JNum NaN) value_fields) xs"
  shows "list_all (\<lambda>p. pt_value p \<noteq> NaN) (array_loop newDate 0 xs [])"
proof -
  have "list_all (\<lambda>p. pt_value p \<noteq> NaN)
          (concat (map (\<lambda>(j, x). array_item newDate j x) (enumerate i xs)))" for i
    using assms
    by (induction xs arbitrary: i) (simp_all add: array_item_not_nan)
  then show ?thesis by (simp add: array_loop_eq)
qed

lemma object_block_not_nan:
  assumes "object_block data = Inr (Some out)"
  shows "list_all (\<lambda>p. pt_value p \<noteq> NaN) out"
  using assms segment_points_not_nan
  by (auto simp: object_block_def entries_loop_eq Let_def
           split: jsval.splits list.splits if_splits sum.splits)

text \<open>
  The claim C2 asks for finite values.  The only test on a number is \<^verbatim>\<open>isNaN\<close>, and
  the string \<^verbatim>\<open>"Infinity"\<close> parses to the number Infinity.
\<close>

theorem infinite_value_counterexample:
  "normalizeChartData isoDate (JArr [JStr ''Infinity'']) = Inr [labelled PosInf ''Point 1'']
   \<and> \<not> is_finite (pt_value (labelled PosInf ''Point 1''))"
  by (simp add: norm_defs parse_defs is_finite_def dec_eval)

text \<open>
  C2, amended.  When the normaliser succeeds on an input that is not an array holding
  the number NaN as an element or in one of the five value fields of an element, no
  returned point has the value NaN.  The value may be an infinity.
\<close>

theorem output_values_not_nan:
  assumes "normalizeChartData newDate data = Inr out" and "no_nan_items data"
  shows "list_all (\<lambda>p. pt_value p \<noteq> NaN) out"
proof (cases "object_block data")
  case (Inl e)
  with assms(1) show ?thesis
    by (simp add: normalizeChartData_def split: if_splits)
next
  case (Inr r)
  show ?thesis
  proof (cases r)
    case (Some res)
    with Inr assms(1) have "out = res"
      by (simp add: normalizeChartData_def split: if_splits)
    with Inr Some show ?thesis
      using object_block_not_nan by simp
  next
    case None
    with Inr assms(1) have ab: "array_block newDate data = Inr out"
      by (simp add: normalizeChartData_def split: if_splits)
    then obtain xs where xs: "data = JArr xs" and out: "out = array_loop newDate 0 xs []"
      by (auto simp: array_block_def Let_def split: jsval.splits if_splits)
    from assms(2) xs show ?thesis
      unfolding out by (simp add: no_nan_items_def array_loop_not_nan)
  qed
qed

theorem output_values_not_nan_witness:
  "normalizeChartData isoDate
     (JArr [JNum (Fin 100), JStr ''200'', JStr ''n/a'', JObj [(''net_income'', JNum (Fin 75))]])
   = Inr [labelled (Fin 100) ''Point 1'', labelled (Fin 200) ''Point 2'',
          \<lparr>pt_value = Fin 75, pt_label = None, pt_date = None, pt_open = None,
           pt_high = None, pt_low = None, pt_close = None\<rparr>]
   \<and> no_nan_items
        (JArr [JNum (Fin 100), JStr ''200'', JStr ''n/a'', JObj [(''net_income'', JNum (Fin 75))]])
   \<and> list_all (\<lambda>p. pt_value p \<noteq> NaN)
        [labelled (Fin 100) ''Point 1'', labelled (Fin 200) ''Point 2'',
          \<lparr>pt_value = Fin 75, pt_label = None, pt_date = None, pt_open = None,
           pt_high = None, pt_low = None, pt_close = None\<rparr>]"
proof -
  have run: "normalizeChartData isoDate
     (JArr [JNum (Fin 100), JStr ''200'', JStr ''n/a'', JObj [(''net_income'', JNum (Fin 75))]])
   = Inr [labelled (Fin 100) ''Point 1'', labelled (Fin 200) ''Point 2'',
          \<lparr>pt_value = Fin 75, pt_label = None, pt_date = None, pt_open = None,
           pt_high = None, pt_low = None, pt_close = None\<rparr>]"
    by (simp add: norm_defs parse_defs dec_eval)
  have ok: "no_nan_items
        (JArr [JNum (Fin 100), JStr ''200'', JStr ''n/a'', JObj [(''net_income'', JNum (Fin 75))]])"
    by (simp add: no_nan_items_def value_fields_def)
  show ?thesis
    using output_values_not_nan [OF run ok] run ok by simp
qed

section \<open>Nested objects\<close>









section \<open>Date labels\<close>

text \<open>
  None of the three calls inside the \<^verbatim>\<open>try\<close> block raises, so the handler is never
  entered: the label is decided by the date alone.
\<close>

lemma formatDateLabel_eq:
  "formatDateLabel newDate dateStr =
     (case newDate dateStr of
        InvalidDate \<Rightarrow> ''Invalid Date NaN''
      | LocalDate m d \<Rightarrow> month_short m @ '' '' @ Number_toString (Fin (of_nat d)))"
  by (simp add: formatDateLabel_def formatDateLabel_try_def Number_toString_def
        split: js_date.splits)

text \<open>
  C4.  The claim: the function returns a string for every string, the short month and
  the day for a date, and the first ten characters of the input when the input does not
  parse.  A date gives "Jan 15"; an input that does not parse gives the text
  "Invalid Date NaN" and not its first ten characters.
\<close>

theorem unparsable_date_label:
  "formatDateLabel isoDate ''2024-01-15'' = ''Jan 15''
   \<and> formatDateLabel isoDate ''not-a-date-at-all'' = ''Invalid Date NaN''
   \<and> take 10 ''not-a-date-at-all'' = ''not-a-date''"
  by (simp add: formatDateLabel_eq date_defs num_defs)

end
